theory Spec2Isabelle
  imports Main
begin

section \<open>Strings\<close>

text \<open>
  JavaScript strings are modelled as \<^typ>\<open>string\<close> (lists of characters). The only
  string operations the component performs are concatenation (template literals and
  \<open>+\<close>) and \<open>String.prototype.includes\<close>, a substring test.
\<close>

fun startsWith :: "string \<Rightarrow> string \<Rightarrow> bool" where
  "startsWith s [] = True"
| "startsWith [] (y # t) = False"
| "startsWith (x # s) (y # t) = (x = y \<and> startsWith s t)"

fun str_includes :: "string \<Rightarrow> string \<Rightarrow> bool" where
  "str_includes [] t = (t = [])"
| "str_includes (x # s) t = (startsWith (x # s) t \<or> str_includes s t)"

section \<open>Preview compositor (the \<open>srcDoc\<close> memo)\<close>

text \<open>
  The template literal of \<open>srcDoc\<close>, line by line. The three interpolations
  \<open>${cssCode}\<close>, \<open>${htmlCode}\<close> and \<open>${jsCode}\<close> are the three arguments.
\<close>

definition preview_template :: "string \<Rightarrow> string \<Rightarrow> string \<Rightarrow> string" where
  \<open>preview_template htmlCode cssCode jsCode =
     ''\<newline>'' @
     ''        <!DOCTYPE html>\<newline>'' @
     ''        <html>\<newline>'' @
     ''          <head>\<newline>'' @
     ''            <style>'' @
     cssCode @
     ''</style>\<newline>'' @
     ''          </head>\<newline>'' @
     ''          <body>\<newline>'' @
     ''            '' @
     htmlCode @
     ''\<newline>'' @
     ''            <script>\<newline>'' @
     ''              // Error handling wrapper\<newline>'' @
     ''              window.onerror = function(message, source, lineno, colno, error) {\<newline>'' @
     ''                const errorElement = document.createElement('div');\<newline>'' @
     ''                errorElement.style.position = 'fixed';\<newline>'' @
     ''                errorElement.style.bottom = '0';\<newline>'' @
     ''                errorElement.style.left = '0';\<newline>'' @
     ''                errorElement.style.right = '0';\<newline>'' @
     ''                errorElement.style.backgroundColor = 'rgba(255, 0, 0, 0.7)';\<newline>'' @
     ''                errorElement.style.color = 'white';\<newline>'' @
     ''                errorElement.style.padding = '8px';\<newline>'' @
     ''                errorElement.style.fontSize = '14px';\<newline>'' @
     ''                errorElement.textContent = 'JavaScript Error: ' + message;\<newline>'' @
     ''                document.body.appendChild(errorElement);\<newline>'' @
     ''                return true; // Prevents the default error handling\<newline>'' @
     ''              };\<newline>'' @
     ''              // User JS code\<newline>'' @
     ''              try {\<newline>'' @
     ''                '' @
     jsCode @
     ''\<newline>'' @
     ''              } catch(e) {\<newline>'' @
     ''                console.error('Error in user JavaScript:', e);\<newline>'' @
     ''              }\<newline>'' @
     ''            </script>\<newline>'' @
     ''          </body>\<newline>'' @
     ''        </html>\<newline>'' @
     ''      ''\<close>

text \<open>
  A JavaScript evaluation either completes normally with a value or throws an error
  carrying a message. The body of the \<open>try\<close> block of \<open>srcDoc\<close> is the template
  literal alone; its interpolated values are string state variables, so evaluating it
  completes normally.
\<close>

datatype 'a completion = Normal 'a | Throw string

definition preview_try_block :: "string \<Rightarrow> string \<Rightarrow> string \<Rightarrow> string completion" where
  "preview_try_block htmlCode cssCode jsCode = Normal (preview_template htmlCode cssCode jsCode)"

definition preview_fallback :: string where
  \<open>preview_fallback = ''<html><body><p>Preview error. Check your code.</p></body></html>''\<close>

definition preview_error_message :: "string \<Rightarrow> string" where
  "preview_error_message m = ''Error generating preview: '' @ m"

text \<open>
  \<open>srcDoc\<close> returns the artifact handed to the iframe, together with the argument of
  \<open>setErrorMsg\<close> when the \<open>catch\<close> branch ran (\<open>None\<close> when it did not).
\<close>

definition srcDoc :: "string \<Rightarrow> string \<Rightarrow> string \<Rightarrow> string \<times> string option" where
  "srcDoc htmlCode cssCode jsCode =
     (case preview_try_block htmlCode cssCode jsCode of
        Normal doc \<Rightarrow> (doc, None)
      | Throw m \<Rightarrow> (preview_fallback, Some (preview_error_message m)))"

text \<open>
  The part of the template between the opening \<open><script>\<close> line and the \<open>try {\<close>
  line: the \<open>window.onerror\<close> handler that the preview installs before the user's
  script runs.
\<close>

definition error_trap :: string where
  \<open>error_trap =
     ''              // Error handling wrapper\<newline>'' @
     ''              window.onerror = function(message, source, lineno, colno, error) {\<newline>'' @
     ''                const errorElement = document.createElement('div');\<newline>'' @
     ''                errorElement.style.position = 'fixed';\<newline>'' @
     ''                errorElement.style.bottom = '0';\<newline>'' @
     ''                errorElement.style.left = '0';\<newline>'' @
     ''                errorElement.style.right = '0';\<newline>'' @
     ''                errorElement.style.backgroundColor = 'rgba(255, 0, 0, 0.7)';\<newline>'' @
     ''                errorElement.style.color = 'white';\<newline>'' @
     ''                errorElement.style.padding = '8px';\<newline>'' @
     ''                errorElement.style.fontSize = '14px';\<newline>'' @
     ''                errorElement.textContent = 'JavaScript Error: ' + message;\<newline>'' @
     ''                document.body.appendChild(errorElement);\<newline>'' @
     ''                return true; // Prevents the default error handling\<newline>'' @
     ''              };\<newline>'' @
     ''              // User JS code\<newline>''\<close>

section \<open>Export serializer (the \<open>fullHtml\<close> template of \<open>handleDownload\<close>)\<close>

definition fullHtml :: "string \<Rightarrow> string \<Rightarrow> string \<Rightarrow> string" where
  \<open>fullHtml htmlCode cssCode jsCode =
     ''\<newline>'' @
     ''<!DOCTYPE html>\<newline>'' @
     ''<html>\<newline>'' @
     ''<head>\<newline>'' @
     ''  <meta charset="UTF-8">\<newline>'' @
     ''  <meta name="viewport" content="width=device-width, initial-scale=1.0">\<newline>'' @
     ''  <title>Live Code Editor Export</title>\<newline>'' @
     ''  <style>\<newline>'' @
     cssCode @
     ''\<newline>'' @
     ''  </style>\<newline>'' @
     ''</head>\<newline>'' @
     ''<body>\<newline>'' @
     htmlCode @
     ''\<newline>'' @
     ''  <script>\<newline>'' @
     jsCode @
     ''\<newline>'' @
     ''  </script>\<newline>'' @
     ''</body>\<newline>'' @
     ''</html>\<newline>''\<close>

text \<open>
  The fixed text of the export template, that is the template with its three
  interpolations left empty: whatever the export adds around the buffers is in here.
\<close>

definition export_boilerplate :: string where
  "export_boilerplate = fullHtml [] [] []"

section \<open>Status bar\<close>

text \<open>
  The status bar is rendered only when \<open>errorMsg\<close> is truthy (non-empty). Its colour is
  red when the text includes \<open>Error\<close> or \<open>Failed\<close> (case-sensitive, as
  \<open>String.prototype.includes\<close> is) and green otherwise.
\<close>

datatype status_kind = Error_kind | Informational_kind

definition is_error_text :: "string \<Rightarrow> bool" where
  "is_error_text errorMsg = (str_includes errorMsg ''Error'' \<or> str_includes errorMsg ''Failed'')"

definition status_bar :: "string \<Rightarrow> (status_kind \<times> string) option" where
  "status_bar errorMsg =
     (if errorMsg = [] then None
      else Some (if is_error_text errorMsg then Error_kind else Informational_kind, errorMsg))"

text \<open>The texts the component passes to \<open>setErrorMsg\<close>.\<close>

definition save_failed_message :: "string \<Rightarrow> string" where
  "save_failed_message m = ''Failed to save: '' @ m"

definition download_failed_message :: "string \<Rightarrow> string" where
  "download_failed_message m = ''Download failed: '' @ m"

definition saved_message :: string where
  "saved_message = ''Code saved successfully!''"

definition downloaded_message :: string where
  "downloaded_message = ''Downloaded successfully!''"

text \<open>
  What the status bar can hold once a \<open>ClearStatus\<close> timer has fired and only timer
  callbacks have run since: nothing, or the failure message of a save.
\<close>

definition cleared_or_save_failure :: "string \<Rightarrow> bool" where
  "cleared_or_save_failure msg = (msg = [] \<or> startsWith msg ''Failed to save: '')"

section \<open>Local storage\<close>

text \<open>
  \<open>localStorage\<close> is a string-keyed store of strings. Whether a \<open>setItem\<close> call is
  accepted is decided by the browser (quota, disabled storage), not by the component: the
  browser's decision is a parameter, a function that for the current contents, the key
  and the value answers \<open>None\<close> (accepted) or \<open>Some m\<close> (\<open>setItem\<close> throws an
  error whose \<open>message\<close> is \<open>m\<close>).
\<close>

type_synonym storage = "(string \<times> string) list"

type_synonym storage_policy = "storage \<Rightarrow> string \<Rightarrow> string \<Rightarrow> string option"

definition getItem :: "storage \<Rightarrow> string \<Rightarrow> string option" where
  "getItem st key = map_of st key"

fun put :: "string \<Rightarrow> string \<Rightarrow> storage \<Rightarrow> storage" where
  "put key v [] = [(key, v)]"
| "put key v ((k, v') # st) = (if k = key then (key, v) # st else (k, v') # put key v st)"

definition setItem :: "storage_policy \<Rightarrow> string \<Rightarrow> string \<Rightarrow> storage \<Rightarrow> storage completion" where
  "setItem policy key v st =
     (case policy st key v of
        Some m \<Rightarrow> Throw m
      | None \<Rightarrow> Normal (put key v st))"

text \<open>Two browsers: one that accepts every write, one with a quota on the stored characters.\<close>

definition accept_all :: storage_policy where
  "accept_all st key v = None"

definition storage_size :: "storage \<Rightarrow> nat" where
  "storage_size st = sum_list (map (\<lambda>(k, v). length k + length v) st)"

definition quota :: "nat \<Rightarrow> storage_policy" where
  "quota q st key v =
     (if storage_size (put key v st) \<le> q then None else Some ''The quota has been exceeded.'')"

section \<open>Component state, debounced functions and timers\<close>

text \<open>
  A timer of the browser's queue: its handle, the time it is due (milliseconds) and its
  callback. The component registers two kinds of callback: lodash's \<open>timerExpired\<close> of
  a debounced function (identified by its index in \<open>instances\<close>, below) and the arrow
  function \<open>() => setErrorMsg("")\<close> of \<open>handleSave\<close> and \<open>handleDownload\<close>.
\<close>

datatype callback = TimerExpired nat | ClearStatus

datatype timer = Timer (handle: nat) (due: nat) (callback: callback)

text \<open>
  One function object returned by lodash's \<open>debounce(func, 1000)\<close>: the values of
  \<open>htmlCode\<close>, \<open>cssCode\<close>, \<open>jsCode\<close> and \<open>darkMode\<close> that the wrapped arrow function
  closed over in the render that created it, and lodash's private variables
  \<open>lastArgs\<close> (\<open>True\<close> when it holds an arguments object, \<open>False\<close> when
  \<open>undefined\<close>), \<open>lastCallTime\<close> and \<open>timerId\<close>. (\<open>lastInvokeTime\<close> and \<open>result\<close>
  are only read under the \<open>maxWait\<close> and \<open>leading\<close> options, which the component does
  not pass.)
\<close>

record debounced =
  cap_htmlCode :: string
  cap_cssCode :: string
  cap_jsCode :: string
  cap_darkMode :: bool
  lastArgs :: bool
  lastCallTime :: "nat option"
  timerId :: "nat option"

text \<open>
  The component and its browser environment. \<open>instances\<close> holds every debounced
  function that \<open>useCallback\<close> has returned so far, in creation order; the last one is
  the one the current render calls \<open>saveToLocalStorage\<close>. Older ones stay reachable
  from the timers they registered. \<open>save_log\<close> is an observation, not program state:
  one entry (time, index of the debounced function) per execution of the wrapped save
  function.
\<close>

record world =
  clock :: nat
  htmlCode :: string
  cssCode :: string
  jsCode :: string
  darkMode :: bool
  errorMsg :: string
  codeChanged :: bool
  localStorage :: storage
  instances :: "debounced list"
  timers :: "timer list"
  next_handle :: nat
  save_log :: "(nat \<times> nat) list"

definition initial_world :: "storage \<Rightarrow> world" where
  \<open>initial_world st =
     \<lparr>clock = 0,
      htmlCode = ''<h1>Hello, World!</h1>'',
      cssCode = ''h1 { color: red; }'',
      jsCode = ''function func() { \<newline>   alert('Hello');\<newline>}'',
      darkMode = True,
      errorMsg = [],
      codeChanged = False,
      localStorage = st,
      instances = [],
      timers = [],
      next_handle = 1,
      save_log = []\<rparr>\<close>

definition setTimeout :: "callback \<Rightarrow> nat \<Rightarrow> world \<Rightarrow> nat \<times> world" where
  "setTimeout cb delay w =
     (next_handle w,
      w\<lparr>timers := timers w @ [Timer (next_handle w) (clock w + delay) cb],
        next_handle := Suc (next_handle w)\<rparr>)"

subsection \<open>Loading the saved code (first \<open>useEffect\<close>)\<close>

definition bool_toString :: "bool \<Rightarrow> string" where
  "bool_toString b = (if b then ''true'' else ''false'')"

definition load_effect :: "world \<Rightarrow> world" where
  "load_effect w =
     (let savedHtml = getItem (localStorage w) ''live-editor-html'';
          savedCss = getItem (localStorage w) ''live-editor-css'';
          savedJs = getItem (localStorage w) ''live-editor-js'';
          savedDarkMode = getItem (localStorage w) ''live-editor-dark-mode'';
          w1 = (case savedHtml of None \<Rightarrow> w
                | Some v \<Rightarrow> if v = [] then w else w\<lparr>htmlCode := v\<rparr>);
          w2 = (case savedCss of None \<Rightarrow> w1
                | Some v \<Rightarrow> if v = [] then w1 else w1\<lparr>cssCode := v\<rparr>);
          w3 = (case savedJs of None \<Rightarrow> w2
                | Some v \<Rightarrow> if v = [] then w2 else w2\<lparr>jsCode := v\<rparr>)
      in (case savedDarkMode of None \<Rightarrow> w3
          | Some v \<Rightarrow> w3\<lparr>darkMode := (v = ''true'')\<rparr>))"

subsection \<open>The save function wrapped by \<open>debounce\<close>\<close>

text \<open>
  The arrow function given to \<open>debounce\<close>, run with the values \<open>d\<close> closed over: four
  \<open>setItem\<close> calls in a \<open>try\<close> block, in source order. The first one that throws
  transfers control to the \<open>catch\<close> clause; the calls before it have taken effect.
\<close>

definition save_fn :: "storage_policy \<Rightarrow> debounced \<Rightarrow> world \<Rightarrow> world" where
  "save_fn policy d w =
     (case setItem policy ''live-editor-html'' (cap_htmlCode d) (localStorage w) of
        Throw m \<Rightarrow> w\<lparr>errorMsg := save_failed_message m\<rparr>
      | Normal s1 \<Rightarrow>
     (case setItem policy ''live-editor-css'' (cap_cssCode d) s1 of
        Throw m \<Rightarrow> w\<lparr>localStorage := s1, errorMsg := save_failed_message m\<rparr>
      | Normal s2 \<Rightarrow>
     (case setItem policy ''live-editor-js'' (cap_jsCode d) s2 of
        Throw m \<Rightarrow> w\<lparr>localStorage := s2, errorMsg := save_failed_message m\<rparr>
      | Normal s3 \<Rightarrow>
     (case setItem policy ''live-editor-dark-mode'' (bool_toString (cap_darkMode d)) s3 of
        Throw m \<Rightarrow> w\<lparr>localStorage := s3, errorMsg := save_failed_message m\<rparr>
      | Normal s4 \<Rightarrow> w\<lparr>localStorage := s4, codeChanged := False, errorMsg := []\<rparr>))))"

subsection \<open>lodash \<open>debounce\<close> (trailing edge, no \<open>maxWait\<close>)\<close>

definition debounce_wait :: nat where
  "debounce_wait = 1000"

definition set_instance :: "nat \<Rightarrow> debounced \<Rightarrow> world \<Rightarrow> world" where
  "set_instance i d w = w\<lparr>instances := (instances w)[i := d]\<rparr>"

definition shouldInvoke :: "debounced \<Rightarrow> nat \<Rightarrow> bool" where
  "shouldInvoke d time =
     (case lastCallTime d of
        None \<Rightarrow> True
      | Some t \<Rightarrow> t + debounce_wait \<le> time \<or> time < t)"

definition remainingWait :: "nat \<Rightarrow> nat \<Rightarrow> nat" where
  "remainingWait t time = debounce_wait - (time - t)"

definition invokeFunc :: "storage_policy \<Rightarrow> nat \<Rightarrow> world \<Rightarrow> world" where
  "invokeFunc policy i w =
     (let d = instances w ! i;
          w1 = set_instance i (d\<lparr>lastArgs := False\<rparr>) w;
          w2 = w1\<lparr>save_log := save_log w1 @ [(clock w1, i)]\<rparr>
      in save_fn policy d w2)"

definition trailingEdge :: "storage_policy \<Rightarrow> nat \<Rightarrow> world \<Rightarrow> world" where
  "trailingEdge policy i w =
     (let d = instances w ! i;
          w1 = set_instance i (d\<lparr>timerId := None\<rparr>) w
      in if lastArgs d then invokeFunc policy i w1
         else set_instance i (d\<lparr>timerId := None, lastArgs := False\<rparr>) w1)"

definition timerExpired :: "storage_policy \<Rightarrow> nat \<Rightarrow> world \<Rightarrow> world" where
  "timerExpired policy i w =
     (if i < length (instances w) then
        (let d = instances w ! i; time = clock w in
         if shouldInvoke d time then trailingEdge policy i w
         else (case lastCallTime d of
                 None \<Rightarrow> w
               | Some t \<Rightarrow>
                   (case setTimeout (TimerExpired i) (remainingWait t time) w of
                      (h, w1) \<Rightarrow> set_instance i (d\<lparr>timerId := Some h\<rparr>) w1)))
      else w)"

definition leadingEdge :: "nat \<Rightarrow> world \<Rightarrow> world" where
  "leadingEdge i w =
     (case setTimeout (TimerExpired i) debounce_wait w of
        (h, w1) \<Rightarrow> set_instance i ((instances w1 ! i)\<lparr>timerId := Some h\<rparr>) w1)"

definition debounced_call :: "nat \<Rightarrow> world \<Rightarrow> world" where
  "debounced_call i w =
     (if i < length (instances w) then
        (let d = instances w ! i; time = clock w; isInvoking = shouldInvoke d time;
             w1 = set_instance i (d\<lparr>lastArgs := True, lastCallTime := Some time\<rparr>) w
         in if isInvoking \<and> timerId d = None then leadingEdge i w1
            else if timerId d = None then
              (case setTimeout (TimerExpired i) debounce_wait w1 of
                 (h, w2) \<Rightarrow> set_instance i ((instances w2 ! i)\<lparr>timerId := Some h\<rparr>) w2)
            else w1)
      else w)"

definition flush :: "storage_policy \<Rightarrow> nat \<Rightarrow> world \<Rightarrow> world" where
  "flush policy i w =
     (if i < length (instances w) then
        (case timerId (instances w ! i) of
           None \<Rightarrow> w
         | Some h \<Rightarrow> trailingEdge policy i w)
      else w)"

subsection \<open>Rendering: \<open>useCallback\<close> and the auto-save effect\<close>

text \<open>
  \<open>useCallback(debounce(...), [htmlCode, cssCode, jsCode, darkMode])\<close> keeps the
  debounced function of the previous render while the four dependencies are unchanged
  and otherwise returns the debounced function created in this render, which closes
  over the current values. The auto-save effect depends on
  \<open>[htmlCode, cssCode, jsCode, saveToLocalStorage]\<close>, so it runs exactly when
  \<open>saveToLocalStorage\<close> is a new function: it sets \<open>codeChanged\<close> and calls it.
\<close>

definition new_debounced :: "world \<Rightarrow> debounced" where
  "new_debounced w =
     \<lparr>cap_htmlCode = htmlCode w, cap_cssCode = cssCode w, cap_jsCode = jsCode w,
      cap_darkMode = darkMode w, lastArgs = False, lastCallTime = None, timerId = None\<rparr>"

definition current :: "world \<Rightarrow> nat" where
  "current w = length (instances w) - 1"

definition deps_unchanged :: "world \<Rightarrow> bool" where
  "deps_unchanged w =
     (case instances w of
        [] \<Rightarrow> False
      | _ # _ \<Rightarrow>
          (let d = last (instances w) in
           cap_htmlCode d = htmlCode w \<and> cap_cssCode d = cssCode w \<and>
           cap_jsCode d = jsCode w \<and> cap_darkMode d = darkMode w))"

definition autosave_effect :: "world \<Rightarrow> world" where
  "autosave_effect w = debounced_call (current w) (w\<lparr>codeChanged := True\<rparr>)"

definition render :: "world \<Rightarrow> world" where
  "render w =
     (if deps_unchanged w then w
      else autosave_effect (w\<lparr>instances := instances w @ [new_debounced w]\<rparr>))"

text \<open>
  Mounting: the first render creates the first debounced function from the
  \<open>useState\<close> defaults; then both effects run in source order; the state set by the
  load effect causes a second render.
\<close>

definition mount :: "storage \<Rightarrow> world" where
  "mount st =
     (let w0 = initial_world st;
          w1 = w0\<lparr>instances := [new_debounced w0]\<rparr>;
          w2 = load_effect w1;
          w3 = autosave_effect w2
      in render w3)"

subsection \<open>Event handlers\<close>

definition handleSave :: "storage_policy \<Rightarrow> world \<Rightarrow> world" where
  "handleSave policy w =
     (let w1 = flush policy (current w) w;
          w2 = w1\<lparr>errorMsg := saved_message\<rparr>
      in snd (setTimeout ClearStatus 2000 w2))"

text \<open>
  \<open>handleDownload\<close> builds \<open>fullHtml\<close> and hands it to the browser (\<open>Blob\<close>,
  \<open>URL.createObjectURL\<close>, a temporary anchor). The hand-off is the browser's; what the
  component sees of it is whether the \<open>try\<close> block threw: \<open>thrown\<close> is \<open>None\<close> or the
  message of the error caught.
\<close>

definition handleDownload :: "string option \<Rightarrow> world \<Rightarrow> world" where
  "handleDownload thrown w =
     (case thrown of
        None \<Rightarrow> snd (setTimeout ClearStatus 2000 (w\<lparr>errorMsg := downloaded_message\<rparr>))
      | Some m \<Rightarrow> w\<lparr>errorMsg := download_failed_message m\<rparr>)"

subsection \<open>Time and events\<close>

text \<open>
  Firing a timer runs its callback. Time advances one millisecond at a time; every
  registered delay is positive, so the timers that fire at a tick are the ones already
  queued and due, in the order they were registered. The callbacks change only
  \<open>errorMsg\<close>, \<open>codeChanged\<close> and the storage, none of which is a dependency of
  \<open>useCallback\<close>, so the render that follows them creates nothing.
\<close>

definition fire :: "storage_policy \<Rightarrow> timer \<Rightarrow> world \<Rightarrow> world" where
  "fire policy t w =
     (case callback t of
        TimerExpired i \<Rightarrow> timerExpired policy i w
      | ClearStatus \<Rightarrow> w\<lparr>errorMsg := []\<rparr>)"

definition is_due :: "nat \<Rightarrow> timer \<Rightarrow> bool" where
  "is_due time t = (due t \<le> time)"

definition tick :: "storage_policy \<Rightarrow> world \<Rightarrow> world" where
  "tick policy w =
     (let time = Suc (clock w);
          w1 = w\<lparr>clock := time, timers := filter (\<lambda>t. \<not> is_due time t) (timers w)\<rparr>
      in fold (fire policy) (filter (is_due time) (timers w)) w1)"

primrec elapse :: "storage_policy \<Rightarrow> nat \<Rightarrow> world \<Rightarrow> world" where
  "elapse policy 0 w = w"
| "elapse policy (Suc n) w = elapse policy n (tick policy w)"

datatype event =
    SetHtmlCode string
  | SetCssCode string
  | SetJsCode string
  | ToggleDarkMode
  | ClickSave
  | ClickDownload "string option"
  | Wait nat

fun step :: "storage_policy \<Rightarrow> event \<Rightarrow> world \<Rightarrow> world" where
  "step policy (SetHtmlCode v) w = render (w\<lparr>htmlCode := v\<rparr>)"
| "step policy (SetCssCode v) w = render (w\<lparr>cssCode := v\<rparr>)"
| "step policy (SetJsCode v) w = render (w\<lparr>jsCode := v\<rparr>)"
| "step policy ToggleDarkMode w = render (w\<lparr>darkMode := (\<not> darkMode w)\<rparr>)"
| "step policy ClickSave w = render (handleSave policy w)"
| "step policy (ClickDownload thrown) w = render (handleDownload thrown w)"
| "step policy (Wait n) w = elapse policy n w"

definition run :: "storage_policy \<Rightarrow> event list \<Rightarrow> world \<Rightarrow> world" where
  "run policy evs w = fold (step policy) evs w"

section \<open>A scenario: two quick edits, then a manual save\<close>

text \<open>
  The component is mounted on an empty storage and left alone for a second (the
  auto-save scheduled by mounting fires at 1000 ms). Then the markup is edited twice, 100
  ms apart. The worlds below are the states the scenario passes through, written out
  in full; the lemmas \<open>mount_empty\<close> and \<open>run_...\<close> further down prove that the model
  computes exactly these.
\<close>

definition two_rapid_edits :: "event list" where
  "two_rapid_edits = [Wait 1000, SetHtmlCode ''a'', Wait 100, SetHtmlCode ''ab'']"

definition world_mounted :: world where
  \<open>world_mounted =
     \<lparr>clock = 0,
      htmlCode = ''<h1>Hello, World!</h1>'',
      cssCode = ''h1 { color: red; }'',
      jsCode = ''function func() { \<newline>   alert('Hello');\<newline>}'',
      darkMode = True,
      errorMsg = [],
      codeChanged = True,
      localStorage =
        [],
      instances =
        [\<lparr>cap_htmlCode = ''<h1>Hello, World!</h1>'', cap_cssCode = ''h1 { color: red; }'',
          cap_jsCode = ''function func() { \<newline>   alert('Hello');\<newline>}'',
          cap_darkMode = True, lastArgs = True, lastCallTime = Some 0, timerId = Some 1\<rparr>],
      timers = [Timer 1 1000 (TimerExpired 0)],
      next_handle = 2,
      save_log = []\<rparr>\<close>

definition world_settled :: world where
  \<open>world_settled =
     \<lparr>clock = 1000,
      htmlCode = ''<h1>Hello, World!</h1>'',
      cssCode = ''h1 { color: red; }'',
      jsCode = ''function func() { \<newline>   alert('Hello');\<newline>}'',
      darkMode = True,
      errorMsg = [],
      codeChanged = False,
      localStorage =
        [(''live-editor-html'', ''<h1>Hello, World!</h1>''), (''live-editor-css'', ''h1 { color: red; }''),
         (''live-editor-js'', ''function func() { \<newline>   alert('Hello');\<newline>}''),
         (''live-editor-dark-mode'', ''true'')],
      instances =
        [\<lparr>cap_htmlCode = ''<h1>Hello, World!</h1>'', cap_cssCode = ''h1 { color: red; }'',
          cap_jsCode = ''function func() { \<newline>   alert('Hello');\<newline>}'',
          cap_darkMode = True, lastArgs = False, lastCallTime = Some 0, timerId = None\<rparr>],
      timers = [],
      next_handle = 2,
      save_log = [(1000, 0)]\<rparr>\<close>

definition world_edited :: world where
  \<open>world_edited =
     \<lparr>clock = 1100,
      htmlCode = ''ab'',
      cssCode = ''h1 { color: red; }'',
      jsCode = ''function func() { \<newline>   alert('Hello');\<newline>}'',
      darkMode = True,
      errorMsg = [],
      codeChanged = True,
      localStorage =
        [(''live-editor-html'', ''<h1>Hello, World!</h1>''), (''live-editor-css'', ''h1 { color: red; }''),
         (''live-editor-js'', ''function func() { \<newline>   alert('Hello');\<newline>}''),
         (''live-editor-dark-mode'', ''true'')],
      instances =
        [\<lparr>cap_htmlCode = ''<h1>Hello, World!</h1>'', cap_cssCode = ''h1 { color: red; }'',
          cap_jsCode = ''function func() { \<newline>   alert('Hello');\<newline>}'',
          cap_darkMode = True, lastArgs = False, lastCallTime = Some 0, timerId = None\<rparr>,
         \<lparr>cap_htmlCode = ''a'', cap_cssCode = ''h1 { color: red; }'',
          cap_jsCode = ''function func() { \<newline>   alert('Hello');\<newline>}'',
          cap_darkMode = True, lastArgs = True, lastCallTime = Some 1000, timerId = Some 2\<rparr>,
         \<lparr>cap_htmlCode = ''ab'', cap_cssCode = ''h1 { color: red; }'',
          cap_jsCode = ''function func() { \<newline>   alert('Hello');\<newline>}'',
          cap_darkMode = True, lastArgs = True, lastCallTime = Some 1100, timerId = Some 3\<rparr>],
      timers = [Timer 2 2000 (TimerExpired 1), Timer 3 2100 (TimerExpired 2)],
      next_handle = 4,
      save_log = [(1000, 0)]\<rparr>\<close>

definition world_first_write :: world where
  \<open>world_first_write =
     \<lparr>clock = 2000,
      htmlCode = ''ab'',
      cssCode = ''h1 { color: red; }'',
      jsCode = ''function func() { \<newline>   alert('Hello');\<newline>}'',
      darkMode = True,
      errorMsg = [],
      codeChanged = False,
      localStorage =
        [(''live-editor-html'', ''a''), (''live-editor-css'', ''h1 { color: red; }''),
         (''live-editor-js'', ''function func() { \<newline>   alert('Hello');\<newline>}''),
         (''live-editor-dark-mode'', ''true'')],
      instances =
        [\<lparr>cap_htmlCode = ''<h1>Hello, World!</h1>'', cap_cssCode = ''h1 { color: red; }'',
          cap_jsCode = ''function func() { \<newline>   alert('Hello');\<newline>}'',
          cap_darkMode = True, lastArgs = False, lastCallTime = Some 0, timerId = None\<rparr>,
         \<lparr>cap_htmlCode = ''a'', cap_cssCode = ''h1 { color: red; }'',
          cap_jsCode = ''function func() { \<newline>   alert('Hello');\<newline>}'',
          cap_darkMode = True, lastArgs = False, lastCallTime = Some 1000, timerId = None\<rparr>,
         \<lparr>cap_htmlCode = ''ab'', cap_cssCode = ''h1 { color: red; }'',
          cap_jsCode = ''function func() { \<newline>   alert('Hello');\<newline>}'',
          cap_darkMode = True, lastArgs = True, lastCallTime = Some 1100, timerId = Some 3\<rparr>],
      timers = [Timer 3 2100 (TimerExpired 2)],
      next_handle = 4,
      save_log = [(1000, 0), (2000, 1)]\<rparr>\<close>

definition world_second_write :: world where
  \<open>world_second_write =
     \<lparr>clock = 2100,
      htmlCode = ''ab'',
      cssCode = ''h1 { color: red; }'',
      jsCode = ''function func() { \<newline>   alert('Hello');\<newline>}'',
      darkMode = True,
      errorMsg = [],
      codeChanged = False,
      localStorage =
        [(''live-editor-html'', ''ab''), (''live-editor-css'', ''h1 { color: red; }''),
         (''live-editor-js'', ''function func() { \<newline>   alert('Hello');\<newline>}''),
         (''live-editor-dark-mode'', ''true'')],
      instances =
        [\<lparr>cap_htmlCode = ''<h1>Hello, World!</h1>'', cap_cssCode = ''h1 { color: red; }'',
          cap_jsCode = ''function func() { \<newline>   alert('Hello');\<newline>}'',
          cap_darkMode = True, lastArgs = False, lastCallTime = Some 0, timerId = None\<rparr>,
         \<lparr>cap_htmlCode = ''a'', cap_cssCode = ''h1 { color: red; }'',
          cap_jsCode = ''function func() { \<newline>   alert('Hello');\<newline>}'',
          cap_darkMode = True, lastArgs = False, lastCallTime = Some 1000, timerId = None\<rparr>,
         \<lparr>cap_htmlCode = ''ab'', cap_cssCode = ''h1 { color: red; }'',
          cap_jsCode = ''function func() { \<newline>   alert('Hello');\<newline>}'',
          cap_darkMode = True, lastArgs = False, lastCallTime = Some 1100, timerId = None\<rparr>],
      timers = [],
      next_handle = 4,
      save_log = [(1000, 0), (2000, 1), (2100, 2)]\<rparr>\<close>

definition world_saved :: world where
  \<open>world_saved =
     \<lparr>clock = 1200,
      htmlCode = ''ab'',
      cssCode = ''h1 { color: red; }'',
      jsCode = ''function func() { \<newline>   alert('Hello');\<newline>}'',
      darkMode = True,
      errorMsg = ''Code saved successfully!'',
      codeChanged = False,
      localStorage =
        [(''live-editor-html'', ''ab''), (''live-editor-css'', ''h1 { color: red; }''),
         (''live-editor-js'', ''function func() { \<newline>   alert('Hello');\<newline>}''),
         (''live-editor-dark-mode'', ''true'')],
      instances =
        [\<lparr>cap_htmlCode = ''<h1>Hello, World!</h1>'', cap_cssCode = ''h1 { color: red; }'',
          cap_jsCode = ''function func() { \<newline>   alert('Hello');\<newline>}'',
          cap_darkMode = True, lastArgs = False, lastCallTime = Some 0, timerId = None\<rparr>,
         \<lparr>cap_htmlCode = ''a'', cap_cssCode = ''h1 { color: red; }'',
          cap_jsCode = ''function func() { \<newline>   alert('Hello');\<newline>}'',
          cap_darkMode = True, lastArgs = True, lastCallTime = Some 1000, timerId = Some 2\<rparr>,
         \<lparr>cap_htmlCode = ''ab'', cap_cssCode = ''h1 { color: red; }'',
          cap_jsCode = ''function func() { \<newline>   alert('Hello');\<newline>}'',
          cap_darkMode = True, lastArgs = False, lastCallTime = Some 1100, timerId = None\<rparr>],
      timers = [Timer 2 2000 (TimerExpired 1), Timer 3 2100 (TimerExpired 2), Timer 4 3200 ClearStatus],
      next_handle = 5,
      save_log = [(1000, 0), (1200, 2)]\<rparr>\<close>

definition world_overwritten :: world where
  \<open>world_overwritten =
     \<lparr>clock = 2000,
      htmlCode = ''ab'',
      cssCode = ''h1 { color: red; }'',
      jsCode = ''function func() { \<newline>   alert('Hello');\<newline>}'',
      darkMode = True,
      errorMsg = [],
      codeChanged = False,
      localStorage =
        [(''live-editor-html'', ''a''), (''live-editor-css'', ''h1 { color: red; }''),
         (''live-editor-js'', ''function func() { \<newline>   alert('Hello');\<newline>}''),
         (''live-editor-dark-mode'', ''true'')],
      instances =
        [\<lparr>cap_htmlCode = ''<h1>Hello, World!</h1>'', cap_cssCode = ''h1 { color: red; }'',
          cap_jsCode = ''function func() { \<newline>   alert('Hello');\<newline>}'',
          cap_darkMode = True, lastArgs = False, lastCallTime = Some 0, timerId = None\<rparr>,
         \<lparr>cap_htmlCode = ''a'', cap_cssCode = ''h1 { color: red; }'',
          cap_jsCode = ''function func() { \<newline>   alert('Hello');\<newline>}'',
          cap_darkMode = True, lastArgs = False, lastCallTime = Some 1000, timerId = None\<rparr>,
         \<lparr>cap_htmlCode = ''ab'', cap_cssCode = ''h1 { color: red; }'',
          cap_jsCode = ''function func() { \<newline>   alert('Hello');\<newline>}'',
          cap_darkMode = True, lastArgs = False, lastCallTime = Some 1100, timerId = None\<rparr>],
      timers = [Timer 3 2100 (TimerExpired 2), Timer 4 3200 ClearStatus],
      next_handle = 5,
      save_log = [(1000, 0), (1200, 2), (2000, 1)]\<rparr>\<close>

definition world_saved_again :: world where
  \<open>world_saved_again =
     \<lparr>clock = 5000,
      htmlCode = ''ab'',
      cssCode = ''h1 { color: red; }'',
      jsCode = ''function func() { \<newline>   alert('Hello');\<newline>}'',
      darkMode = True,
      errorMsg = ''Code saved successfully!'',
      codeChanged = False,
      localStorage =
        [(''live-editor-html'', ''a''), (''live-editor-css'', ''h1 { color: red; }''),
         (''live-editor-js'', ''function func() { \<newline>   alert('Hello');\<newline>}''),
         (''live-editor-dark-mode'', ''true'')],
      instances =
        [\<lparr>cap_htmlCode = ''<h1>Hello, World!</h1>'', cap_cssCode = ''h1 { color: red; }'',
          cap_jsCode = ''function func() { \<newline>   alert('Hello');\<newline>}'',
          cap_darkMode = True, lastArgs = False, lastCallTime = Some 0, timerId = None\<rparr>,
         \<lparr>cap_htmlCode = ''a'', cap_cssCode = ''h1 { color: red; }'',
          cap_jsCode = ''function func() { \<newline>   alert('Hello');\<newline>}'',
          cap_darkMode = True, lastArgs = False, lastCallTime = Some 1000, timerId = None\<rparr>,
         \<lparr>cap_htmlCode = ''ab'', cap_cssCode = ''h1 { color: red; }'',
          cap_jsCode = ''function func() { \<newline>   alert('Hello');\<newline>}'',
          cap_darkMode = True, lastArgs = False, lastCallTime = Some 1100, timerId = None\<rparr>],
      timers = [Timer 5 7000 ClearStatus],
      next_handle = 6,
      save_log = [(1000, 0), (1200, 2), (2000, 1)]\<rparr>\<close>


section \<open>Basic facts about substring search\<close>

lemma startsWith_iff: "startsWith s t \<longleftrightarrow> (\<exists>q. s = t @ q)"
  by (induction s t rule: startsWith.induct) auto

lemma includes_iff: "str_includes s t \<longleftrightarrow> (\<exists>p q. s = p @ t @ q)"
proof (induction s)
  case Nil
  then show ?case by auto
next
  case (Cons x s)
  show ?case
  proof
    assume "str_includes (x # s) t"
    then consider "startsWith (x # s) t" | "str_includes s t" by auto
    then show "\<exists>p q. x # s = p @ t @ q"
    proof cases
      case 1
      then obtain q where "x # s = t @ q" using startsWith_iff by blast
      then have "x # s = [] @ t @ q" by simp
      then show ?thesis by blast
    next
      case 2
      then obtain p q where "s = p @ t @ q" using Cons.IH by blast
      then have "x # s = (x # p) @ t @ q" by simp
      then show ?thesis by blast
    qed
  next
    assume "\<exists>p q. x # s = p @ t @ q"
    then obtain p q where pq: "x # s = p @ t @ q" by blast
    show "str_includes (x # s) t"
    proof (cases p)
      case Nil
      then have "startsWith (x # s) t" using pq startsWith_iff by auto
      then show ?thesis by simp
    next
      case (Cons y p')
      then have "s = p' @ t @ q" using pq by simp
      then have "str_includes s t" using Cons.IH by blast
      then show ?thesis by simp
    qed
  qed
qed

lemma includes_middle: "str_includes (p @ t @ q) t"
  using includes_iff by blast

lemma includes_prefix: "str_includes (t @ q) t"
  using includes_middle[of "[]" t q] by simp

section \<open>The preview artifact\<close>

lemma srcDoc_never_falls_back: "srcDoc h c j = (preview_template h c j, None)"
  by (simp add: srcDoc_def preview_try_block_def)

text \<open>
  Claim C3. For every markup, style and script text the preview compositor does not
  throw: it returns the template (never the fallback) and raises no status message. The
  artifact holds the style buffer verbatim between \<open><style>\<close> and \<open></style>\<close>, the
  markup buffer verbatim right after \<open><body>\<close>, and the script buffer verbatim between
  \<open>try {\<close> and \<open>} catch(e) {\<close>, after the \<open>window.onerror\<close> handler, all inside
  one script element of the body. In particular, with the script buffer
  \<open>throw new Error("x")\<close> the artifact still includes the markup and the style.
\<close>

theorem srcDoc_composition:
  \<open>snd (srcDoc h c j) = None \<and>
   (\<exists>head trap tail.
      fst (srcDoc h c j) =
        head @ ''<style>'' @ c @ ''</style>\<newline>          </head>\<newline>          <body>\<newline>            '' @
        h @ ''\<newline>            <script>\<newline>'' @ trap @
        ''              try {\<newline>                '' @ j @ ''\<newline>              } catch(e) {\<newline>'' @ tail
      \<and> str_includes trap ''window.onerror = function(message, source, lineno, colno, error) {''
      \<and> str_includes tail ''</script>'' \<and> str_includes tail ''</body>'') \<and>
   str_includes (fst (srcDoc h c ''throw new Error("x")'')) h \<and>
   str_includes (fst (srcDoc h c ''throw new Error("x")'')) c\<close>
proof -
  let ?head = \<open>''\<newline>        <!DOCTYPE html>\<newline>        <html>\<newline>          <head>\<newline>            ''\<close>
  let ?tail = \<open>''                console.error('Error in user JavaScript:', e);\<newline>              }\<newline>            </script>\<newline>          </body>\<newline>        </html>\<newline>      ''\<close>
  have shape: \<open>fst (srcDoc h c j) =
        ?head @ ''<style>'' @ c @ ''</style>\<newline>          </head>\<newline>          <body>\<newline>            '' @
        h @ ''\<newline>            <script>\<newline>'' @ error_trap @
        ''              try {\<newline>                '' @ j @ ''\<newline>              } catch(e) {\<newline>'' @ ?tail\<close> for j
    by (simp add: srcDoc_never_falls_back preview_template_def error_trap_def)
  have trap: \<open>str_includes error_trap ''window.onerror = function(message, source, lineno, colno, error) {''\<close>
    by (simp add: error_trap_def)
  have t1: \<open>str_includes ?tail ''</script>''\<close> by simp
  have t2: \<open>str_includes ?tail ''</body>''\<close> by simp
  have i1: \<open>str_includes (fst (srcDoc h c ''throw new Error("x")'')) h\<close>
    unfolding includes_iff shape by (metis append.assoc)
  have i2: \<open>str_includes (fst (srcDoc h c ''throw new Error("x")'')) c\<close>
    unfolding includes_iff shape by (metis append.assoc)
  show ?thesis
  proof (intro conjI)
    show "snd (srcDoc h c j) = None"
      by (simp add: srcDoc_never_falls_back)
    show \<open>\<exists>head trap tail.
      fst (srcDoc h c j) =
        head @ ''<style>'' @ c @ ''</style>\<newline>          </head>\<newline>          <body>\<newline>            '' @
        h @ ''\<newline>            <script>\<newline>'' @ trap @
        ''              try {\<newline>                '' @ j @ ''\<newline>              } catch(e) {\<newline>'' @ tail
      \<and> str_includes trap ''window.onerror = function(message, source, lineno, colno, error) {''
      \<and> str_includes tail ''</script>'' \<and> str_includes tail ''</body>''\<close>
      by (rule exI[of _ ?head], rule exI[of _ error_trap], rule exI[of _ ?tail])
         (intro conjI shape trap t1 t2)
  qed (rule i1 i2)+
qed


section \<open>The export artifact\<close>

text \<open>
  Claim C4. The export template is fixed text around the three buffers, each embedded
  verbatim: the style buffer inside a style element of the head, the markup buffer at the
  start of the body, the script buffer as the whole content of a script element. The
  fixed text carries the doctype, the charset and viewport metadata and the title, and
  has no \<open>window.onerror\<close> handler and no \<open>try\<close>/\<open>catch\<close>. Exporting markup
  \<open><h1>A</h1>\<close>, style \<open>h1{color:red}\<close> and script \<open>console.log(1)\<close> gives an
  artifact that includes the three fragments and none of \<open>window.onerror\<close>,
  \<open>try\<close>, \<open>catch\<close>.
\<close>

theorem fullHtml_standalone:
  \<open>(\<exists>p0 p1 p2 p3.
      (\<forall>h c j. fullHtml h c j = p0 @ c @ p1 @ h @ p2 @ j @ p3) \<and>
      export_boilerplate = p0 @ p1 @ p2 @ p3 \<and>
      str_includes p0 ''<!DOCTYPE html>'' \<and>
      str_includes p0 ''<meta charset="UTF-8">'' \<and>
      str_includes p0 ''<meta name="viewport" content="width=device-width, initial-scale=1.0">'' \<and>
      str_includes p0 ''<title>Live Code Editor Export</title>'' \<and>
      (\<exists>q. p0 = q @ ''<style>\<newline>'') \<and>
      (\<exists>q. p1 = ''\<newline>  </style>\<newline>'' @ q @ ''<body>\<newline>'') \<and>
      p2 = ''\<newline>  <script>\<newline>'' \<and>
      (\<exists>q. p3 = ''\<newline>  </script>\<newline></body>'' @ q)) \<and>
   \<not> str_includes export_boilerplate ''window.onerror'' \<and>
   \<not> str_includes export_boilerplate ''try'' \<and>
   \<not> str_includes export_boilerplate ''catch'' \<and>
   str_includes (fullHtml ''<h1>A</h1>'' ''h1{color:red}'' ''console.log(1)'') ''<h1>A</h1>'' \<and>
   str_includes (fullHtml ''<h1>A</h1>'' ''h1{color:red}'' ''console.log(1)'') ''h1{color:red}'' \<and>
   str_includes (fullHtml ''<h1>A</h1>'' ''h1{color:red}'' ''console.log(1)'') ''console.log(1)'' \<and>
   \<not> str_includes (fullHtml ''<h1>A</h1>'' ''h1{color:red}'' ''console.log(1)'') ''window.onerror'' \<and>
   \<not> str_includes (fullHtml ''<h1>A</h1>'' ''h1{color:red}'' ''console.log(1)'') ''try'' \<and>
   \<not> str_includes (fullHtml ''<h1>A</h1>'' ''h1{color:red}'' ''console.log(1)'') ''catch''\<close>
proof -
  let ?p0 = \<open>''\<newline><!DOCTYPE html>\<newline><html>\<newline><head>\<newline>  <meta charset="UTF-8">\<newline>  <meta name="viewport" content="width=device-width, initial-scale=1.0">\<newline>  <title>Live Code Editor Export</title>\<newline>  <style>\<newline>''\<close>
  let ?p1 = \<open>''\<newline>  </style>\<newline></head>\<newline><body>\<newline>''\<close>
  let ?p2 = \<open>''\<newline>  <script>\<newline>''\<close>
  let ?p3 = \<open>''\<newline>  </script>\<newline></body>\<newline></html>\<newline>''\<close>
  have shape: "\<forall>h c j. fullHtml h c j = ?p0 @ c @ ?p1 @ h @ ?p2 @ j @ ?p3"
    by (simp add: fullHtml_def)
  have boiler: "export_boilerplate = ?p0 @ ?p1 @ ?p2 @ ?p3"
    by (simp add: export_boilerplate_def fullHtml_def)
  have b1: \<open>str_includes ?p0 ''<!DOCTYPE html>''\<close> by simp
  have b2: \<open>str_includes ?p0 ''<meta charset="UTF-8">''\<close> by simp
  have b3: \<open>str_includes ?p0 ''<meta name="viewport" content="width=device-width, initial-scale=1.0">''\<close> by simp
  have b4: \<open>str_includes ?p0 ''<title>Live Code Editor Export</title>''\<close> by simp
  have e0: \<open>\<exists>q. ?p0 = q @ ''<style>\<newline>''\<close>
    by (rule exI[of _ \<open>''\<newline><!DOCTYPE html>\<newline><html>\<newline><head>\<newline>  <meta charset="UTF-8">\<newline>  <meta name="viewport" content="width=device-width, initial-scale=1.0">\<newline>  <title>Live Code Editor Export</title>\<newline>  ''\<close>]) simp
  have e1: \<open>\<exists>q. ?p1 = ''\<newline>  </style>\<newline>'' @ q @ ''<body>\<newline>''\<close>
    by (rule exI[of _ \<open>''</head>\<newline>''\<close>]) simp
  have e3: \<open>\<exists>q. ?p3 = ''\<newline>  </script>\<newline></body>'' @ q\<close>
    by (rule exI[of _ \<open>''\<newline></html>\<newline>''\<close>]) simp
  have first: \<open>\<exists>p0 p1 p2 p3.
      (\<forall>h c j. fullHtml h c j = p0 @ c @ p1 @ h @ p2 @ j @ p3) \<and>
      export_boilerplate = p0 @ p1 @ p2 @ p3 \<and>
      str_includes p0 ''<!DOCTYPE html>'' \<and>
      str_includes p0 ''<meta charset="UTF-8">'' \<and>
      str_includes p0 ''<meta name="viewport" content="width=device-width, initial-scale=1.0">'' \<and>
      str_includes p0 ''<title>Live Code Editor Export</title>'' \<and>
      (\<exists>q. p0 = q @ ''<style>\<newline>'') \<and>
      (\<exists>q. p1 = ''\<newline>  </style>\<newline>'' @ q @ ''<body>\<newline>'') \<and>
      p2 = ''\<newline>  <script>\<newline>'' \<and>
      (\<exists>q. p3 = ''\<newline>  </script>\<newline></body>'' @ q)\<close>
    by (rule exI[of _ ?p0], rule exI[of _ ?p1], rule exI[of _ ?p2], rule exI[of _ ?p3])
       (intro conjI shape boiler b1 b2 b3 b4 e0 e1 e3 refl)
  have n1: \<open>\<not> str_includes export_boilerplate ''window.onerror''\<close>
    by (simp add: export_boilerplate_def fullHtml_def)
  have n2: \<open>\<not> str_includes export_boilerplate ''try''\<close>
    by (simp add: export_boilerplate_def fullHtml_def)
  have n3: \<open>\<not> str_includes export_boilerplate ''catch''\<close>
    by (simp add: export_boilerplate_def fullHtml_def)
  have c1: \<open>str_includes (fullHtml ''<h1>A</h1>'' ''h1{color:red}'' ''console.log(1)'') ''<h1>A</h1>''\<close>
    by (simp add: fullHtml_def)
  have c2: \<open>str_includes (fullHtml ''<h1>A</h1>'' ''h1{color:red}'' ''console.log(1)'') ''h1{color:red}''\<close>
    by (simp add: fullHtml_def)
  have c3: \<open>str_includes (fullHtml ''<h1>A</h1>'' ''h1{color:red}'' ''console.log(1)'') ''console.log(1)''\<close>
    by (simp add: fullHtml_def)
  have c4: \<open>\<not> str_includes (fullHtml ''<h1>A</h1>'' ''h1{color:red}'' ''console.log(1)'') ''window.onerror''\<close>
    by (simp add: fullHtml_def)
  have c5: \<open>\<not> str_includes (fullHtml ''<h1>A</h1>'' ''h1{color:red}'' ''console.log(1)'') ''try''\<close>
    by (simp add: fullHtml_def)
  have c6: \<open>\<not> str_includes (fullHtml ''<h1>A</h1>'' ''h1{color:red}'' ''console.log(1)'') ''catch''\<close>
    by (simp add: fullHtml_def)
  show ?thesis
    by (intro conjI first n1 n2 n3 c1 c2 c3 c4 c5 c6)
qed

section \<open>Classification of status messages\<close>

text \<open>
  Claim C8. The status bar shows a message as an error exactly when its text includes
  \<open>Error\<close> or \<open>Failed\<close>. The save-failure and preview-failure messages are errors
  and the two success messages are informational, whatever the caught error's message.
  The export-failure message \<open>Download failed: x\<close> is shown as informational: its
  word \<open>failed\<close> is in lower case and the test is case-sensitive.
\<close>

theorem status_classification:
  \<open>is_error_text (save_failed_message m) \<and>
   is_error_text (preview_error_message m) \<and>
   \<not> is_error_text saved_message \<and>
   \<not> is_error_text downloaded_message \<and>
   \<not> is_error_text (download_failed_message ''x'') \<and>
   status_bar (errorMsg (handleDownload (Some ''x'') w)) = Some (Informational_kind, ''Download failed: x'')\<close>
proof -
  have "str_includes (''Failed'' @ '' to save: '' @ m) ''Failed''"
    by (rule includes_prefix)
  then have a: "is_error_text (save_failed_message m)"
    by (simp add: is_error_text_def save_failed_message_def)
  have "str_includes (''Error'' @ '' generating preview: '' @ m) ''Error''"
    by (rule includes_prefix)
  then have b: "is_error_text (preview_error_message m)"
    by (simp add: is_error_text_def preview_error_message_def)
  have c: "\<not> is_error_text saved_message"
    by (simp add: is_error_text_def saved_message_def)
  have d: "\<not> is_error_text downloaded_message"
    by (simp add: is_error_text_def downloaded_message_def)
  have e: "\<not> is_error_text (download_failed_message ''x'')"
    by (simp add: is_error_text_def download_failed_message_def)
  have f: "status_bar (errorMsg (handleDownload (Some ''x'') w)) = Some (Informational_kind, ''Download failed: x'')"
    using e by (simp add: handleDownload_def status_bar_def download_failed_message_def)
  show ?thesis by (intro conjI a b c d e f)
qed

section \<open>Storage and frame facts\<close>

lemma getItem_put: "getItem (put k v st) k' = (if k' = k then Some v else getItem st k')"
  by (induction st) (auto simp: getItem_def)

lemma startsWith_append: "startsWith (t @ q) t"
  by (simp add: startsWith_iff)

lemma save_fn_frame:
  "clock (save_fn policy d w) = clock w"
  "timers (save_fn policy d w) = timers w"
  "instances (save_fn policy d w) = instances w"
  "next_handle (save_fn policy d w) = next_handle w"
  "htmlCode (save_fn policy d w) = htmlCode w"
  "cssCode (save_fn policy d w) = cssCode w"
  "jsCode (save_fn policy d w) = jsCode w"
  "darkMode (save_fn policy d w) = darkMode w"
  "save_log (save_fn policy d w) = save_log w"
  by (simp_all add: save_fn_def split: completion.splits)

lemma save_fn_errorMsg: "cleared_or_save_failure (errorMsg (save_fn policy d w))"
  by (simp add: save_fn_def cleared_or_save_failure_def save_failed_message_def startsWith_append
      split: completion.splits)

lemma save_fn_success:
  assumes "errorMsg (save_fn policy d w) = []"
  shows "localStorage (save_fn policy d w) =
           put ''live-editor-dark-mode'' (bool_toString (cap_darkMode d))
             (put ''live-editor-js'' (cap_jsCode d)
               (put ''live-editor-css'' (cap_cssCode d)
                 (put ''live-editor-html'' (cap_htmlCode d) (localStorage w))))"
  using assms
  by (auto simp: save_fn_def setItem_def save_failed_message_def
      split: completion.splits option.splits)

lemma debounced_call_frame:
  "clock (debounced_call i w) = clock w"
  "htmlCode (debounced_call i w) = htmlCode w"
  "cssCode (debounced_call i w) = cssCode w"
  "jsCode (debounced_call i w) = jsCode w"
  "darkMode (debounced_call i w) = darkMode w"
  "errorMsg (debounced_call i w) = errorMsg w"
  "codeChanged (debounced_call i w) = codeChanged w"
  "localStorage (debounced_call i w) = localStorage w"
  "save_log (debounced_call i w) = save_log w"
  by (simp_all add: debounced_call_def leadingEdge_def setTimeout_def set_instance_def Let_def)

lemma render_frame:
  "clock (render w) = clock w"
  "htmlCode (render w) = htmlCode w"
  "cssCode (render w) = cssCode w"
  "jsCode (render w) = jsCode w"
  "darkMode (render w) = darkMode w"
  "errorMsg (render w) = errorMsg w"
  "localStorage (render w) = localStorage w"
  "save_log (render w) = save_log w"
  by (simp_all add: render_def autosave_effect_def debounced_call_frame)

lemma render_keeps_timer: "t \<in> set (timers w) \<Longrightarrow> t \<in> set (timers (render w))"
  by (simp add: render_def autosave_effect_def debounced_call_def leadingEdge_def setTimeout_def
      set_instance_def Let_def)

lemma invokeFunc_frame:
  "clock (invokeFunc policy i w) = clock w"
  "timers (invokeFunc policy i w) = timers w"
  "cleared_or_save_failure (errorMsg (invokeFunc policy i w))"
  by (simp_all add: invokeFunc_def Let_def save_fn_frame save_fn_errorMsg set_instance_def)

lemma trailingEdge_frame:
  "clock (trailingEdge policy i w) = clock w"
  "timers (trailingEdge policy i w) = timers w"
  "errorMsg (trailingEdge policy i w) = errorMsg w \<or>
   cleared_or_save_failure (errorMsg (trailingEdge policy i w))"
  by (simp_all add: trailingEdge_def Let_def invokeFunc_frame set_instance_def)

lemma timerExpired_frame:
  "clock (timerExpired policy i w) = clock w"
  "\<exists>ts. timers (timerExpired policy i w) = timers w @ ts"
  "errorMsg (timerExpired policy i w) = errorMsg w \<or>
   cleared_or_save_failure (errorMsg (timerExpired policy i w))"
  using trailingEdge_frame(3) [of policy i w]
  by (auto simp: timerExpired_def Let_def trailingEdge_frame setTimeout_def set_instance_def
      split: option.splits)

lemma fire_frame:
  "clock (fire policy t w) = clock w"
  "\<exists>ts. timers (fire policy t w) = timers w @ ts"
  "errorMsg (fire policy t w) = errorMsg w \<or> cleared_or_save_failure (errorMsg (fire policy t w))"
  using timerExpired_frame(2,3) [of policy _ w]
  by (auto simp: fire_def timerExpired_frame(1) cleared_or_save_failure_def split: callback.splits)

lemma fire_ClearStatus: "callback t = ClearStatus \<Longrightarrow> errorMsg (fire policy t w) = []"
  by (simp add: fire_def)

section \<open>Timers over time\<close>

lemma fold_fire_clock: "clock (fold (fire policy) ts w) = clock w"
  by (induction ts arbitrary: w) (simp_all add: fire_frame)

lemma fold_fire_timers: "\<exists>us. timers (fold (fire policy) ts w) = timers w @ us"
proof (induction ts arbitrary: w)
  case Nil
  then show ?case by simp
next
  case (Cons t ts)
  obtain us where a: "timers (fire policy t w) = timers w @ us"
    using fire_frame(2) by blast
  obtain vs where "timers (fold (fire policy) ts (fire policy t w)) = timers (fire policy t w) @ vs"
    using Cons.IH by blast
  then show ?case using a by simp
qed

lemma fold_fire_keeps:
  "cleared_or_save_failure (errorMsg w) \<Longrightarrow>
   cleared_or_save_failure (errorMsg (fold (fire policy) ts w))"
proof (induction ts arbitrary: w)
  case Nil
  then show ?case by simp
next
  case (Cons t ts)
  have "cleared_or_save_failure (errorMsg (fire policy t w))"
    using Cons.prems fire_frame(3) [of policy t w] by auto
  then show ?case using Cons.IH by simp
qed

lemma fold_fire_clears:
  "\<exists>t\<in>set ts. callback t = ClearStatus \<Longrightarrow>
   cleared_or_save_failure (errorMsg (fold (fire policy) ts w))"
proof (induction ts arbitrary: w)
  case Nil
  then show ?case by simp
next
  case (Cons t ts)
  show ?case
  proof (cases "callback t = ClearStatus")
    case True
    then have "cleared_or_save_failure (errorMsg (fire policy t w))"
      by (simp add: fire_ClearStatus cleared_or_save_failure_def)
    then show ?thesis using fold_fire_keeps by simp
  next
    case False
    then have "\<exists>t\<in>set ts. callback t = ClearStatus" using Cons.prems by auto
    then show ?thesis using Cons.IH by simp
  qed
qed

lemma clock_tick: "clock (tick policy w) = Suc (clock w)"
  by (simp add: tick_def Let_def fold_fire_clock)

lemma tick_keeps_timer:
  assumes "t \<in> set (timers w)" and "Suc (clock w) < due t"
  shows "t \<in> set (timers (tick policy w))"
proof -
  let ?time = "Suc (clock w)"
  let ?w1 = "w\<lparr>clock := ?time, timers := filter (\<lambda>t. \<not> is_due ?time t) (timers w)\<rparr>"
  have "t \<in> set (timers ?w1)" using assms by (simp add: is_due_def)
  moreover obtain us where
    "timers (fold (fire policy) (filter (is_due ?time) (timers w)) ?w1) = timers ?w1 @ us"
    using fold_fire_timers by blast
  ultimately show ?thesis by (simp add: tick_def Let_def)
qed

lemma tick_fires_ClearStatus:
  assumes "t \<in> set (timers w)" and "due t \<le> Suc (clock w)" and "callback t = ClearStatus"
  shows "cleared_or_save_failure (errorMsg (tick policy w))"
proof -
  have "\<exists>t\<in>set (filter (is_due (Suc (clock w))) (timers w)). callback t = ClearStatus"
    using assms by (auto simp: is_due_def)
  then show ?thesis by (simp add: tick_def Let_def fold_fire_clears)
qed

lemma clock_elapse: "clock (elapse policy n w) = clock w + n"
  by (induction n arbitrary: w) (simp_all add: clock_tick)

lemma elapse_keeps_timer:
  "t \<in> set (timers w) \<Longrightarrow> clock w + n < due t \<Longrightarrow> t \<in> set (timers (elapse policy n w))"
proof (induction n arbitrary: w)
  case 0
  then show ?case by simp
next
  case (Suc n)
  have "t \<in> set (timers (tick policy w))"
    using Suc.prems by (intro tick_keeps_timer) auto
  moreover have "clock (tick policy w) + n < due t"
    using Suc.prems by (simp add: clock_tick)
  ultimately show ?case using Suc.IH by simp
qed

lemma elapse_Suc_right: "elapse policy (Suc n) w = tick policy (elapse policy n w)"
  by (induction n arbitrary: w) simp_all

lemma elapse_fires_ClearStatus:
  assumes "t \<in> set (timers w)" and "due t = clock w + Suc n" and "callback t = ClearStatus"
  shows "cleared_or_save_failure (errorMsg (elapse policy (Suc n) w))"
proof -
  have "t \<in> set (timers (elapse policy n w))"
    using assms by (intro elapse_keeps_timer) auto
  moreover have "due t \<le> Suc (clock (elapse policy n w))"
    using assms by (simp add: clock_elapse)
  ultimately have "cleared_or_save_failure (errorMsg (tick policy (elapse policy n w)))"
    using assms(3) tick_fires_ClearStatus by blast
  then show ?thesis by (simp only: elapse_Suc_right)
qed

lemma success_message_expires:
  assumes "t \<in> set (timers w)" and "due t = clock w + 2000" and "callback t = ClearStatus"
  shows "cleared_or_save_failure (errorMsg (elapse policy 2000 w))"
proof -
  have "cleared_or_save_failure (errorMsg (elapse policy (Suc 1999) w))"
    using assms by (intro elapse_fires_ClearStatus) auto
  then show ?thesis by simp
qed

text \<open>
  Two shortcuts for evaluating \<open>elapse\<close>: while no timer is due nothing happens but the
  clock, and a wait that ends exactly at the next due time is one tick from the
  millisecond before.
\<close>

lemma tick_idle:
  assumes "\<forall>t\<in>set (timers w). Suc (clock w) < due t"
  shows "tick policy w = w\<lparr>clock := Suc (clock w)\<rparr>"
proof -
  have a: "filter (is_due (Suc (clock w))) (timers w) = []"
    using assms by (auto simp: is_due_def filter_empty_conv)
  have b: "filter (\<lambda>t. \<not> is_due (Suc (clock w)) t) (timers w) = timers w"
    using assms by (auto simp: is_due_def filter_id_conv)
  show ?thesis by (simp add: tick_def Let_def a b)
qed

lemma elapse_idle:
  "\<forall>t\<in>set (timers w). clock w + n < due t \<Longrightarrow> elapse policy n w = w\<lparr>clock := clock w + n\<rparr>"
proof (induction n arbitrary: w)
  case 0
  then show ?case by simp
next
  case (Suc n)
  have t: "tick policy w = w\<lparr>clock := Suc (clock w)\<rparr>"
    using Suc.prems by (intro tick_idle) auto
  have "elapse policy n (w\<lparr>clock := Suc (clock w)\<rparr>) =
        (w\<lparr>clock := Suc (clock w)\<rparr>)\<lparr>clock := clock (w\<lparr>clock := Suc (clock w)\<rparr>) + n\<rparr>"
    using Suc.prems by (intro Suc.IH) auto
  then show ?case using t by simp
qed

lemma elapse_add: "elapse policy (m + n) w = elapse policy n (elapse policy m w)"
  by (induction m arbitrary: w) auto

lemma elapse_jump:
  assumes "0 < n" and "\<forall>t\<in>set (timers w). clock w + n \<le> due t"
  shows "elapse policy n w = tick policy (w\<lparr>clock := clock w + (n - 1)\<rparr>)"
proof -
  obtain m where n: "n = m + 1" using assms(1) by (metis Suc_eq_plus1 gr0_implies_Suc)
  have "elapse policy m w = w\<lparr>clock := clock w + m\<rparr>"
    using assms(2) n by (intro elapse_idle) auto
  moreover have "elapse policy (m + 1) w = elapse policy 1 (elapse policy m w)"
    by (rule elapse_add)
  ultimately show ?thesis using n by simp
qed

lemma run_append: "run policy (es @ fs) w = run policy fs (run policy es w)"
  by (simp add: run_def)

section \<open>The scenario, evaluated\<close>

lemmas model_defs = run_def mount_def initial_world_def new_debounced_def load_effect_def
  autosave_effect_def render_def deps_unchanged_def current_def debounced_call_def
  leadingEdge_def setTimeout_def set_instance_def shouldInvoke_def remainingWait_def
  handleSave_def handleDownload_def flush_def trailingEdge_def invokeFunc_def save_fn_def
  setItem_def getItem_def accept_all_def tick_def fire_def is_due_def timerExpired_def
  debounce_wait_def Let_def bool_toString_def saved_message_def save_failed_message_def
  downloaded_message_def download_failed_message_def quota_def storage_size_def

lemma mount_empty: "mount [] = world_mounted"
  by (simp add: model_defs world_mounted_def)

lemma run_settled: \<open>run accept_all [Wait 1000] world_mounted = world_settled\<close>
  by (simp add: model_defs world_mounted_def world_settled_def elapse_jump elapse_idle)

lemma run_edited: \<open>run accept_all [SetHtmlCode ''a'', Wait 100, SetHtmlCode ''ab''] world_settled = world_edited\<close>
  by (simp add: model_defs world_settled_def world_edited_def elapse_jump elapse_idle)

lemma run_first_write: \<open>run accept_all [Wait 900] world_edited = world_first_write\<close>
  by (simp add: model_defs world_edited_def world_first_write_def elapse_jump elapse_idle)

lemma run_second_write: \<open>run accept_all [Wait 100] world_first_write = world_second_write\<close>
  by (simp add: model_defs world_first_write_def world_second_write_def elapse_jump elapse_idle)

lemma run_saved: \<open>run accept_all [Wait 100, ClickSave] world_edited = world_saved\<close>
  by (simp add: model_defs world_edited_def world_saved_def elapse_jump elapse_idle)

lemma run_overwritten: \<open>run accept_all [Wait 800] world_saved = world_overwritten\<close>
  by (simp add: model_defs world_saved_def world_overwritten_def elapse_jump elapse_idle)

lemma run_saved_again: \<open>run accept_all [Wait 100, Wait 1100, Wait 1800, ClickSave] world_overwritten = world_saved_again\<close>
  by (simp add: model_defs world_overwritten_def world_saved_again_def elapse_jump elapse_idle)


lemma run_two_rapid_edits: "run accept_all two_rapid_edits (mount []) = world_edited"
proof -
  have split: "two_rapid_edits = [Wait 1000] @ [SetHtmlCode ''a'', Wait 100, SetHtmlCode ''ab'']"
    by (simp add: two_rapid_edits_def)
  show ?thesis
    unfolding split by (simp only: run_append mount_empty run_settled run_edited)
qed

section \<open>Loading the saved code\<close>

lemma mount_state:
  "htmlCode (mount st) = htmlCode (load_effect (initial_world st))"
  "cssCode (mount st) = cssCode (load_effect (initial_world st))"
  "jsCode (mount st) = jsCode (load_effect (initial_world st))"
  "darkMode (mount st) = darkMode (load_effect (initial_world st))"
  by (simp_all add: mount_def Let_def render_frame autosave_effect_def debounced_call_frame
      load_effect_def split: option.splits)

lemma mount_loaded:
  \<open>htmlCode (mount st) =
     (case getItem st ''live-editor-html'' of
        None \<Rightarrow> ''<h1>Hello, World!</h1>''
      | Some v \<Rightarrow> if v = [] then ''<h1>Hello, World!</h1>'' else v) \<and>
   cssCode (mount st) =
     (case getItem st ''live-editor-css'' of
        None \<Rightarrow> ''h1 { color: red; }''
      | Some v \<Rightarrow> if v = [] then ''h1 { color: red; }'' else v) \<and>
   jsCode (mount st) =
     (case getItem st ''live-editor-js'' of
        None \<Rightarrow> ''function func() { \<newline>   alert('Hello');\<newline>}''
      | Some v \<Rightarrow> if v = [] then ''function func() { \<newline>   alert('Hello');\<newline>}'' else v) \<and>
   darkMode (mount st) =
     (case getItem st ''live-editor-dark-mode'' of
        None \<Rightarrow> True
      | Some v \<Rightarrow> v = ''true'')\<close>
  by (simp add: mount_state load_effect_def initial_world_def split: option.splits)

text \<open>
  Claim C5, as amended. After mounting on any storage, each of the three buffers holds
  the stored text when its entry is present and not the empty string, and the
  \<open>useState\<close> default otherwise; the mode flag is the default (dark) when its entry is
  missing and otherwise is whether the stored text is \<open>true\<close>. Each field is decided
  from its own entry alone.
\<close>

theorem load_per_field_fallback:
  \<open>htmlCode (mount st) =
     (case getItem st ''live-editor-html'' of
        None \<Rightarrow> ''<h1>Hello, World!</h1>''
      | Some v \<Rightarrow> if v = [] then ''<h1>Hello, World!</h1>'' else v) \<and>
   cssCode (mount st) =
     (case getItem st ''live-editor-css'' of
        None \<Rightarrow> ''h1 { color: red; }''
      | Some v \<Rightarrow> if v = [] then ''h1 { color: red; }'' else v) \<and>
   jsCode (mount st) =
     (case getItem st ''live-editor-js'' of
        None \<Rightarrow> ''function func() { \<newline>   alert('Hello');\<newline>}''
      | Some v \<Rightarrow> if v = [] then ''function func() { \<newline>   alert('Hello');\<newline>}'' else v) \<and>
   darkMode (mount st) =
     (case getItem st ''live-editor-dark-mode'' of
        None \<Rightarrow> True
      | Some v \<Rightarrow> v = ''true'')\<close>
  by (rule mount_loaded)

text \<open>The instance of the claim: only the style entry exists.\<close>

theorem load_per_field_fallback_witness:
  \<open>htmlCode (mount [(''live-editor-css'', ''body { margin: 0; }'')]) = ''<h1>Hello, World!</h1>'' \<and>
   cssCode (mount [(''live-editor-css'', ''body { margin: 0; }'')]) = ''body { margin: 0; }'' \<and>
   jsCode (mount [(''live-editor-css'', ''body { margin: 0; }'')]) =
     ''function func() { \<newline>   alert('Hello');\<newline>}'' \<and>
   darkMode (mount [(''live-editor-css'', ''body { margin: 0; }'')]) = True\<close>
  using load_per_field_fallback [of \<open>[(''live-editor-css'', ''body { margin: 0; }'')]\<close>]
  by (simp add: getItem_def)

text \<open>
  Claim C5 as stated fails: here the markup entry is present (its stored value is the
  empty string) and the markup buffer is nevertheless the default, not the stored value.
\<close>

theorem load_present_empty_counterexample:
  \<open>getItem [(''live-editor-html'', [])] ''live-editor-html'' = Some [] \<and>
   htmlCode (mount [(''live-editor-html'', [])]) = ''<h1>Hello, World!</h1>''\<close>
  using mount_loaded [of \<open>[(''live-editor-html'', [])]\<close>] by (simp add: getItem_def)

text \<open>
  Claim C9. A stored markup, style or script entry that is the empty string is treated
  like a missing entry: the buffer gets its non-empty default. The mode flag falls back
  to its default only when its entry is missing; any stored text, the empty string
  included, is used (the flag is then whether the text is \<open>true\<close>). So a successful
  write of an emptied markup buffer stores the empty string, and mounting on that
  storage gives the default markup, not the empty buffer.
\<close>

theorem empty_entry_treated_as_absent:
  \<open>(getItem st ''live-editor-html'' = Some [] \<longrightarrow> htmlCode (mount st) = ''<h1>Hello, World!</h1>'') \<and>
   (getItem st ''live-editor-css'' = Some [] \<longrightarrow> cssCode (mount st) = ''h1 { color: red; }'') \<and>
   (getItem st ''live-editor-js'' = Some [] \<longrightarrow>
      jsCode (mount st) = ''function func() { \<newline>   alert('Hello');\<newline>}'') \<and>
   (getItem st ''live-editor-dark-mode'' = Some v \<longrightarrow> darkMode (mount st) = (v = ''true'')) \<and>
   (getItem st ''live-editor-dark-mode'' = None \<longrightarrow> darkMode (mount st) = True) \<and>
   (cap_htmlCode d = [] \<and> errorMsg (save_fn policy d w) = [] \<longrightarrow>
      getItem (localStorage (save_fn policy d w)) ''live-editor-html'' = Some [] \<and>
      htmlCode (mount (localStorage (save_fn policy d w))) = ''<h1>Hello, World!</h1>'')\<close>
proof -
  have rt: "getItem (localStorage (save_fn policy d w)) ''live-editor-html'' = Some []"
    if "cap_htmlCode d = []" "errorMsg (save_fn policy d w) = []"
    using that by (simp add: save_fn_success getItem_put)
  show ?thesis
    using rt mount_loaded [of st] mount_loaded [of "localStorage (save_fn policy d w)"]
    by simp
qed

theorem empty_entry_treated_as_absent_witness:
  \<open>htmlCode (mount [(''live-editor-html'', []), (''live-editor-dark-mode'', [])]) = ''<h1>Hello, World!</h1>'' \<and>
   darkMode (mount [(''live-editor-html'', []), (''live-editor-dark-mode'', [])]) = False \<and>
   getItem (localStorage (save_fn accept_all (new_debounced ((initial_world [])\<lparr>htmlCode := []\<rparr>)) (initial_world [])))
     ''live-editor-html'' = Some [] \<and>
   htmlCode (mount (localStorage (save_fn accept_all (new_debounced ((initial_world [])\<lparr>htmlCode := []\<rparr>)) (initial_world [])))) =
     ''<h1>Hello, World!</h1>''\<close>
  using empty_entry_treated_as_absent
    [where st = \<open>[(''live-editor-html'', []), (''live-editor-dark-mode'', [])]\<close> and v = "[]"
       and d = "new_debounced ((initial_world [])\<lparr>htmlCode := []\<rparr>)" and policy = accept_all
       and w = "initial_world []"]
  by (simp add: getItem_def save_fn_def setItem_def accept_all_def new_debounced_def initial_world_def)

section \<open>What one execution of the save function persists\<close>

text \<open>
  Claim C6, as amended. One execution of the save function makes its four
  \<open>setItem\<close> calls in order (markup, style, script, mode flag) and stops at the first one
  the browser refuses. When none is refused all four entries are replaced by the values
  the function closed over, the dirty flag is reset and the status is cleared. When the
  k-th call is refused, the entries written by the calls before it keep their new
  values, the remaining entries keep their previous stored values, and the status is the
  failure message: nothing is rolled back.
\<close>

theorem save_fn_write_outcomes:
  \<open>(let st = localStorage w;
        s1 = put ''live-editor-html'' (cap_htmlCode d) st;
        s2 = put ''live-editor-css'' (cap_cssCode d) s1;
        s3 = put ''live-editor-js'' (cap_jsCode d) s2;
        s4 = put ''live-editor-dark-mode'' (bool_toString (cap_darkMode d)) s3;
        w' = save_fn policy d w
    in (\<exists>m. policy st ''live-editor-html'' (cap_htmlCode d) = Some m \<and>
             localStorage w' = st \<and> errorMsg w' = save_failed_message m) \<or>
       (\<exists>m. policy st ''live-editor-html'' (cap_htmlCode d) = None \<and>
             policy s1 ''live-editor-css'' (cap_cssCode d) = Some m \<and>
             localStorage w' = s1 \<and> errorMsg w' = save_failed_message m) \<or>
       (\<exists>m. policy st ''live-editor-html'' (cap_htmlCode d) = None \<and>
             policy s1 ''live-editor-css'' (cap_cssCode d) = None \<and>
             policy s2 ''live-editor-js'' (cap_jsCode d) = Some m \<and>
             localStorage w' = s2 \<and> errorMsg w' = save_failed_message m) \<or>
       (\<exists>m. policy st ''live-editor-html'' (cap_htmlCode d) = None \<and>
             policy s1 ''live-editor-css'' (cap_cssCode d) = None \<and>
             policy s2 ''live-editor-js'' (cap_jsCode d) = None \<and>
             policy s3 ''live-editor-dark-mode'' (bool_toString (cap_darkMode d)) = Some m \<and>
             localStorage w' = s3 \<and> errorMsg w' = save_failed_message m) \<or>
       (policy st ''live-editor-html'' (cap_htmlCode d) = None \<and>
        policy s1 ''live-editor-css'' (cap_cssCode d) = None \<and>
        policy s2 ''live-editor-js'' (cap_jsCode d) = None \<and>
        policy s3 ''live-editor-dark-mode'' (bool_toString (cap_darkMode d)) = None \<and>
        localStorage w' = s4 \<and> errorMsg w' = [] \<and> codeChanged w' = False \<and>
        getItem (localStorage w') ''live-editor-html'' = Some (cap_htmlCode d) \<and>
        getItem (localStorage w') ''live-editor-css'' = Some (cap_cssCode d) \<and>
        getItem (localStorage w') ''live-editor-js'' = Some (cap_jsCode d) \<and>
        getItem (localStorage w') ''live-editor-dark-mode'' = Some (bool_toString (cap_darkMode d))))\<close>
  by (simp add: Let_def save_fn_def setItem_def getItem_put split: option.splits)

theorem save_fn_write_outcomes_witness:
  \<open>localStorage (save_fn accept_all
       \<lparr>cap_htmlCode = ''<p>new</p>'', cap_cssCode = ''p { color: blue; }'', cap_jsCode = ''2'',
        cap_darkMode = False, lastArgs = True, lastCallTime = Some 0, timerId = Some 1\<rparr>
       (initial_world [(''live-editor-html'', ''<p>old</p>'')])) =
     [(''live-editor-html'', ''<p>new</p>''), (''live-editor-css'', ''p { color: blue; }''),
      (''live-editor-js'', ''2''), (''live-editor-dark-mode'', ''false'')]\<close>
  using save_fn_write_outcomes
    [where policy = accept_all
       and d = \<open>\<lparr>cap_htmlCode = ''<p>new</p>'', cap_cssCode = ''p { color: blue; }'', cap_jsCode = ''2'',
                cap_darkMode = False, lastArgs = True, lastCallTime = Some 0, timerId = Some 1\<rparr>\<close>
       and w = \<open>initial_world [(''live-editor-html'', ''<p>old</p>'')]\<close>]
  by (simp add: Let_def accept_all_def initial_world_def bool_toString_def)

text \<open>
  Claim C6 as stated fails. With a quota of 100 stored characters and four entries
  already stored, a write whose style text does not fit replaces the markup entry and
  then fails: the markup is the new one, style, script and mode flag are the old ones.
\<close>

theorem partial_write_counterexample:
  \<open>(let st = [(''live-editor-html'', ''<p>old</p>''), (''live-editor-css'', ''p{}''),
              (''live-editor-js'', ''1''), (''live-editor-dark-mode'', ''true'')];
        d = \<lparr>cap_htmlCode = ''<p>new</p>'',
             cap_cssCode = ''p { color: blue; margin: 0 auto; padding: 1em; }'',
             cap_jsCode = ''2'', cap_darkMode = False,
             lastArgs = True, lastCallTime = Some 0, timerId = Some 1\<rparr>;
        w' = save_fn (quota 100) d (initial_world st)
    in localStorage w' =
         [(''live-editor-html'', ''<p>new</p>''), (''live-editor-css'', ''p{}''),
          (''live-editor-js'', ''1''), (''live-editor-dark-mode'', ''true'')] \<and>
       errorMsg w' = ''Failed to save: The quota has been exceeded.'')\<close>
  by (simp add: Let_def save_fn_def setItem_def quota_def storage_size_def initial_world_def
      save_failed_message_def)

section \<open>Manual save\<close>




text \<open>
  What the manual save does achieve. When the current debounced function is the one of
  the current buffers, has a call pending and the browser accepts the writes, the click
  stores the four current values and leaves nothing pending on that function.
\<close>

lemma save_fn_accept_all:
  "localStorage (save_fn accept_all d w) =
     put ''live-editor-dark-mode'' (bool_toString (cap_darkMode d))
       (put ''live-editor-js'' (cap_jsCode d)
         (put ''live-editor-css'' (cap_cssCode d)
           (put ''live-editor-html'' (cap_htmlCode d) (localStorage w))))"
  by (simp add: save_fn_def setItem_def accept_all_def)

lemma handleSave_flushes_pending:
  assumes "deps_unchanged w"
    and "timerId (last (instances w)) = Some h"
    and "lastArgs (last (instances w))"
  shows "getItem (localStorage (handleSave accept_all w)) ''live-editor-html'' = Some (htmlCode w)"
    and "getItem (localStorage (handleSave accept_all w)) ''live-editor-css'' = Some (cssCode w)"
    and "getItem (localStorage (handleSave accept_all w)) ''live-editor-js'' = Some (jsCode w)"
    and "getItem (localStorage (handleSave accept_all w)) ''live-editor-dark-mode'' =
           Some (bool_toString (darkMode w))"
    and "timerId (last (instances (handleSave accept_all w))) = None"
proof -
  have ne: "instances w \<noteq> []"
    using assms(1) by (auto simp: deps_unchanged_def split: list.splits)
  then have cur: "instances w ! current w = last (instances w)" "current w < length (instances w)"
    by (simp_all add: current_def last_conv_nth)
  have caps: "cap_htmlCode (last (instances w)) = htmlCode w"
    "cap_cssCode (last (instances w)) = cssCode w"
    "cap_jsCode (last (instances w)) = jsCode w"
    "cap_darkMode (last (instances w)) = darkMode w"
    using assms(1) by (auto simp: deps_unchanged_def Let_def split: list.splits)
  have st: "localStorage (handleSave accept_all w) =
      put ''live-editor-dark-mode'' (bool_toString (darkMode w))
       (put ''live-editor-js'' (jsCode w)
         (put ''live-editor-css'' (cssCode w)
           (put ''live-editor-html'' (htmlCode w) (localStorage w))))"
    using cur assms(2,3) caps
    by (simp add: handleSave_def flush_def trailingEdge_def invokeFunc_def Let_def setTimeout_def
        save_fn_accept_all set_instance_def)
  show "getItem (localStorage (handleSave accept_all w)) ''live-editor-html'' = Some (htmlCode w)"
    "getItem (localStorage (handleSave accept_all w)) ''live-editor-css'' = Some (cssCode w)"
    "getItem (localStorage (handleSave accept_all w)) ''live-editor-js'' = Some (jsCode w)"
    "getItem (localStorage (handleSave accept_all w)) ''live-editor-dark-mode'' =
           Some (bool_toString (darkMode w))"
    by (simp_all add: st getItem_put)
  show "timerId (last (instances (handleSave accept_all w))) = None"
    using cur assms(2,3) ne
    by (simp add: handleSave_def flush_def trailingEdge_def invokeFunc_def Let_def setTimeout_def
        save_fn_frame set_instance_def last_conv_nth current_def)
qed

section \<open>Expiry of status messages\<close>

lemma handleSave_timer:
  "Timer (next_handle (flush policy (current w) w)) (clock w + 2000) ClearStatus
     \<in> set (timers (handleSave policy w))"
  "clock (handleSave policy w) = clock w"
  by (simp_all add: handleSave_def setTimeout_def Let_def flush_def trailingEdge_frame
      split: option.splits)

lemma handleDownload_timer:
  "Timer (next_handle w) (clock w + 2000) ClearStatus \<in> set (timers (handleDownload None w))"
  "clock (handleDownload thrown w) = clock w"
  by (simp_all add: handleDownload_def setTimeout_def split: option.splits)

text \<open>
  Claim C7, as amended. A success message comes with a timer: 2000 ms after a manual
  save or a successful export, with no user action in between, the status bar no longer
  shows it (it is empty, or shows the failure message of a save that ran in between).
  A failure message comes with no timer: neither the failing export nor the failing save
  registers one, and when no timer is pending an export-failure message stays for any
  length of time.
\<close>

theorem status_expiry:
  \<open>cleared_or_save_failure (errorMsg (elapse policy 2000 (step policy ClickSave w))) \<and>
   cleared_or_save_failure (errorMsg (elapse policy 2000 (step policy (ClickDownload None) w))) \<and>
   timers (handleDownload (Some m) w) = timers w \<and>
   timers (save_fn policy d w) = timers w \<and>
   (timers w = [] \<longrightarrow>
      errorMsg (elapse policy n (handleDownload (Some m) w)) = ''Download failed: '' @ m)\<close>
proof -
  have a: "cleared_or_save_failure (errorMsg (elapse policy 2000 (step policy ClickSave w)))"
  proof (rule success_message_expires)
    show "Timer (next_handle (flush policy (current w) w)) (clock w + 2000) ClearStatus
            \<in> set (timers (step policy ClickSave w))"
      by (simp add: render_keeps_timer handleSave_timer)
  qed (simp_all add: render_frame handleSave_timer)
  have b: "cleared_or_save_failure (errorMsg (elapse policy 2000 (step policy (ClickDownload None) w)))"
  proof (rule success_message_expires)
    show "Timer (next_handle w) (clock w + 2000) ClearStatus
            \<in> set (timers (step policy (ClickDownload None) w))"
      by (simp add: render_keeps_timer handleDownload_timer)
  qed (simp_all add: render_frame handleDownload_timer)
  have c: "timers (handleDownload (Some m) w) = timers w"
    by (simp add: handleDownload_def)
  have e: "errorMsg (elapse policy n (handleDownload (Some m) w)) = ''Download failed: '' @ m"
    if "timers w = []"
  proof -
    have "elapse policy n (handleDownload (Some m) w) =
          (handleDownload (Some m) w)\<lparr>clock := clock (handleDownload (Some m) w) + n\<rparr>"
      using that c by (intro elapse_idle) simp
    then show ?thesis by (simp add: handleDownload_def download_failed_message_def)
  qed
  show ?thesis using a b c e by (simp add: save_fn_frame)
qed

text \<open>
  One second after mounting on an empty storage nothing is pending. A manual save then
  shows its message for 1999 ms and not after 2000 ms; an export failure is still shown
  an hour later.
\<close>

theorem status_expiry_witness:
  \<open>timers (run accept_all [Wait 1000] (mount [])) = [] \<and>
   errorMsg (elapse accept_all 1999 (step accept_all ClickSave (run accept_all [Wait 1000] (mount [])))) =
     ''Code saved successfully!'' \<and>
   errorMsg (elapse accept_all 2000 (step accept_all ClickSave (run accept_all [Wait 1000] (mount [])))) = [] \<and>
   errorMsg (elapse accept_all 3600000 (handleDownload (Some ''x'') (run accept_all [Wait 1000] (mount [])))) =
     ''Download failed: x''\<close>
proof -
  have idle: "timers (run accept_all [Wait 1000] (mount [])) = []"
    by (simp add: mount_empty run_settled) (simp add: world_settled_def)
  have shown: \<open>errorMsg (elapse accept_all 1999 (step accept_all ClickSave (run accept_all [Wait 1000] (mount [])))) =
     ''Code saved successfully!''\<close>
    by (simp only: mount_empty run_settled)
       (simp add: model_defs world_settled_def elapse_jump elapse_idle)
  have gone: \<open>errorMsg (elapse accept_all 2000 (step accept_all ClickSave (run accept_all [Wait 1000] (mount [])))) = []\<close>
    by (simp only: mount_empty run_settled)
       (simp add: model_defs world_settled_def elapse_jump elapse_idle)
  show ?thesis
    using idle shown gone
      status_expiry [where policy = accept_all and w = "run accept_all [Wait 1000] (mount [])"
        and m = \<open>''x''\<close> and n = 3600000]
    by simp
qed

text \<open>
  Claim C7 as stated fails. An export that fails one second after mounting leaves its
  message on display 2000 ms later and an hour after that; so does the message of the
  first auto-save when the browser refuses every write.
\<close>

theorem error_message_persists_counterexample:
  \<open>errorMsg (run accept_all ([Wait 1000] @ [ClickDownload (Some ''x''), Wait 2000, Wait 3600000])
       (mount [])) = ''Download failed: x'' \<and>
   errorMsg (run (quota 0) [Wait 1000, Wait 2000, Wait 3600000] (mount [])) =
     ''Failed to save: The quota has been exceeded.''\<close>
proof -
  have a: \<open>errorMsg (run accept_all ([Wait 1000] @ [ClickDownload (Some ''x''), Wait 2000, Wait 3600000])
       (mount [])) = ''Download failed: x''\<close>
    by (simp only: run_append mount_empty run_settled)
       (simp add: model_defs world_settled_def elapse_idle)
  have b: \<open>errorMsg (run (quota 0) [Wait 1000, Wait 2000, Wait 3600000] (mount [])) =
     ''Failed to save: The quota has been exceeded.''\<close>
    by (simp only: mount_empty) (simp add: model_defs world_mounted_def elapse_jump elapse_idle)
  show ?thesis using a b by (rule conjI)
qed

section \<open>Debounced writes and the manual save in the scenario\<close>

text \<open>
  No handler removes a timer from the queue: an edit keeps every timer that was pending
  before it.
\<close>

lemma edit_keeps_timers:
  "t \<in> set (timers w) \<Longrightarrow> t \<in> set (timers (step policy (SetHtmlCode v) w))"
  "t \<in> set (timers w) \<Longrightarrow> t \<in> set (timers (step policy (SetCssCode v) w))"
  "t \<in> set (timers w) \<Longrightarrow> t \<in> set (timers (step policy (SetJsCode v) w))"
  "t \<in> set (timers w) \<Longrightarrow> t \<in> set (timers (step policy ToggleDarkMode w))"
  by (simp_all add: render_keeps_timer)

text \<open>
  Claim C2, evaluated on the code. After the two edits two timers are pending, one per
  debounced function: the second edit's render created a new debounced function and the
  first one's timer was not cancelled. 900 ms later the first timer runs the save
  function with the first edit's markup; 100 ms after that the second timer runs it
  again with the second edit's markup. Two writes follow the two edits, not one.
\<close>

theorem two_rapid_edits_two_writes:
  \<open>timers (run accept_all two_rapid_edits (mount [])) =
     [Timer 2 2000 (TimerExpired 1), Timer 3 2100 (TimerExpired 2)] \<and>
   save_log (run accept_all two_rapid_edits (mount [])) = [(1000, 0)] \<and>
   save_log (run accept_all (two_rapid_edits @ [Wait 900]) (mount [])) = [(1000, 0), (2000, 1)] \<and>
   getItem (localStorage (run accept_all (two_rapid_edits @ [Wait 900]) (mount [])))
     ''live-editor-html'' = Some ''a'' \<and>
   save_log (run accept_all (two_rapid_edits @ [Wait 900] @ [Wait 100]) (mount [])) =
     [(1000, 0), (2000, 1), (2100, 2)] \<and>
   getItem (localStorage (run accept_all (two_rapid_edits @ [Wait 900] @ [Wait 100]) (mount [])))
     ''live-editor-html'' = Some ''ab''\<close>
  by (simp only: run_append run_two_rapid_edits run_first_write run_second_write)
     (simp add: world_edited_def world_first_write_def world_second_write_def getItem_def)

text \<open>
  Claim C1, evaluated on the code. A manual save 100 ms after the second edit stores the
  current markup, but the timer of the first edit's debounced function stays queued.
  800 ms later it fires and stores the first edit's markup over the saved one. A second
  manual save, with nothing pending on the current debounced function, runs no write
  (the log of executions is unchanged) and reports success while the stored markup
  still differs from the buffer.
\<close>

theorem manual_save_then_stale_write:
  \<open>htmlCode (run accept_all (two_rapid_edits @ [Wait 100, ClickSave]) (mount [])) = ''ab'' \<and>
   getItem (localStorage (run accept_all (two_rapid_edits @ [Wait 100, ClickSave]) (mount [])))
     ''live-editor-html'' = Some ''ab'' \<and>
   timers (run accept_all (two_rapid_edits @ [Wait 100, ClickSave]) (mount [])) =
     [Timer 2 2000 (TimerExpired 1), Timer 3 2100 (TimerExpired 2), Timer 4 3200 ClearStatus] \<and>
   htmlCode (run accept_all (two_rapid_edits @ [Wait 100, ClickSave] @ [Wait 800]) (mount [])) = ''ab'' \<and>
   getItem (localStorage (run accept_all (two_rapid_edits @ [Wait 100, ClickSave] @ [Wait 800]) (mount [])))
     ''live-editor-html'' = Some ''a'' \<and>
   save_log (run accept_all (two_rapid_edits @ [Wait 100, ClickSave] @ [Wait 800]) (mount [])) =
     [(1000, 0), (1200, 2), (2000, 1)] \<and>
   htmlCode (run accept_all
       (two_rapid_edits @ [Wait 100, ClickSave] @ [Wait 800] @
        [Wait 100, Wait 1100, Wait 1800, ClickSave])
       (mount [])) = ''ab'' \<and>
   getItem (localStorage (run accept_all
       (two_rapid_edits @ [Wait 100, ClickSave] @ [Wait 800] @
        [Wait 100, Wait 1100, Wait 1800, ClickSave])
       (mount []))) ''live-editor-html'' = Some ''a'' \<and>
   save_log (run accept_all
       (two_rapid_edits @ [Wait 100, ClickSave] @ [Wait 800] @
        [Wait 100, Wait 1100, Wait 1800, ClickSave])
       (mount [])) = [(1000, 0), (1200, 2), (2000, 1)] \<and>
   errorMsg (run accept_all
       (two_rapid_edits @ [Wait 100, ClickSave] @ [Wait 800] @
        [Wait 100, Wait 1100, Wait 1800, ClickSave])
       (mount [])) = ''Code saved successfully!''\<close>
  by (simp only: run_append run_two_rapid_edits run_saved run_overwritten run_saved_again)
     (simp add: world_saved_def world_overwritten_def world_saved_again_def getItem_def)

end
